theory Spec2Isabelle
  imports Main
begin

unbundle bit_operations_syntax

section \<open>Python values used by the middleware\<close>

text \<open>
  The middleware handles values that are either a Python \<open>str\<close> or \<open>None\<close>
  (\<open>dict.get\<close> returns \<open>None\<close> for a missing key). They are modelled as
  \<open>string option\<close>, with \<open>None\<close> for Python's \<open>None\<close>. WSGI hands header
  values over as latin-1 strings, one \<open>char\<close> per byte. Python integers are \<open>int\<close>.
\<close>

type_synonym pyval = "string option"

text \<open>Truthiness of \<open>if x:\<close> for such a value: \<open>None\<close> and the empty string are false.\<close>

fun truthy :: "pyval \<Rightarrow> bool" where
  "truthy None = False"
| "truthy (Some s) = (s \<noteq> [])"

text \<open>\<open>str(x)\<close>, as an f-string renders \<open>{x}\<close>.\<close>

fun py_str :: "pyval \<Rightarrow> string" where
  "py_str None = ''None''"
| "py_str (Some s) = s"

text \<open>
  \<open>s.split(sep)\<close> for a separator of one character: the pieces between the
  separators, empty pieces kept; \<open>''.split(',')\<close> is \<open>['']\<close>. The result is
  never empty, so the first branch of the \<open>case\<close> below is never taken.
\<close>

fun str_split :: "string \<Rightarrow> char \<Rightarrow> string list" where
  "str_split [] sep = [[]]"
| "str_split (c # cs) sep =
     (if c = sep then [] # str_split cs sep
      else (case str_split cs sep of
              [] \<Rightarrow> [[c]]
            | piece # pieces \<Rightarrow> (c # piece) # pieces))"

text \<open>\<open>sep.join(pieces)\<close>.\<close>

fun str_join :: "string \<Rightarrow> string list \<Rightarrow> string" where
  "str_join sep [] = []"
| "str_join sep [x] = x"
| "str_join sep (x # y # ys) = x @ sep @ str_join sep (y # ys)"

text \<open>
  \<open>int(s, base)\<close> for a string already checked to hold only digits of that base,
  and the renderings \<open>'%x' % n\<close> and \<open>str(n)\<close> of a non-negative integer.
\<close>

definition digit_value :: "char \<Rightarrow> int" where
  "digit_value c =
     (if c \<in> set ''0123456789'' then of_char c - 48
      else if c \<in> set ''abcdef'' then of_char c - 87
      else of_char c - 55)"

definition int_of_str :: "string \<Rightarrow> int \<Rightarrow> int" where
  "int_of_str s base = foldl (\<lambda>n c. n * base + digit_value c) 0 s"

function format_x :: "int \<Rightarrow> string" where
  "format_x n =
     (if n < 16 then [''0123456789abcdef'' ! nat n]
      else format_x (n div 16) @ [''0123456789abcdef'' ! nat (n mod 16)])"
  by auto
termination by (relation "measure nat") auto

function str_of_int :: "int \<Rightarrow> string" where
  "str_of_int n =
     (if n < 10 then [''0123456789'' ! nat n]
      else str_of_int (n div 10) @ [''0123456789'' ! nat (n mod 10)])"
  by auto
termination by (relation "measure nat") auto

declare format_x.simps [simp del] str_of_int.simps [simp del]

section \<open>The address field (\<open>GenericIPAddressField\<close>)\<close>

text \<open>
  Both tables of models.py declare \<open>ip_address\<close> as a \<open>GenericIPAddressField\<close>
  without \<open>null=True\<close>. What such a column receives on \<open>objects.create\<close> is fixed by
  the field, not by the middleware: \<open>get_prep_value\<close> rewrites a value that holds a colon
  and parses as an IPv6 literal into the normal form of that literal, and the backend
  adapter \<open>adapt_ipaddressfield_value\<close> turns an empty value into \<open>NULL\<close>, which the column
  refuses. This section follows that code path: \<open>ipaddress\<close> of the standard library for
  parsing and printing, \<open>django.utils.ipv6.clean_ipv6_address\<close>, and the two methods of
  the field. A raised \<open>ValueError\<close> or \<open>ValidationError\<close> is the value \<open>None\<close>.
\<close>

subsection \<open>\<open>ipaddress.IPv4Address\<close>\<close>

definition parse_octet :: "string \<Rightarrow> int option" where
  "parse_octet octet_str =
     (if octet_str = [] then None
      else if \<not> set octet_str \<subseteq> set ''0123456789'' then None
      else if length octet_str > 3 then None
      else if octet_str \<noteq> ''0'' \<and> octet_str ! 0 = CHR ''0'' then None
      else (let octet_int = int_of_str octet_str 10
            in if octet_int > 255 then None else Some octet_int))"

definition IPv4_ip_int_from_string :: "string \<Rightarrow> int option" where
  "IPv4_ip_int_from_string ip_str =
     (if ip_str = [] then None
      else (let octets = str_split ip_str (CHR ''.'')
            in if length octets \<noteq> 4 then None
               else map_option (foldl (\<lambda>n b. n * 256 + b) 0) (those (map parse_octet octets))))"

definition IPv4Address :: "string \<Rightarrow> int option" where
  "IPv4Address addr_str =
     (if CHR ''/'' \<in> set addr_str then None else IPv4_ip_int_from_string addr_str)"

definition IPv4_string_from_ip_int :: "int \<Rightarrow> string" where
  "IPv4_string_from_ip_int ip_int =
     str_join ''.'' (map (\<lambda>i. str_of_int (drop_bit (8 * (3 - i)) ip_int mod 256)) [0..<4])"

subsection \<open>\<open>ipaddress.IPv6Address\<close>\<close>

definition HEX_DIGITS :: "char set" where
  "HEX_DIGITS = set ''0123456789ABCDEFabcdef''"

text \<open>\<open>_parse_hextet\<close>; \<open>int('', 16)\<close> raises \<open>ValueError\<close>.\<close>

definition parse_hextet :: "string \<Rightarrow> int option" where
  "parse_hextet hextet_str =
     (if \<not> set hextet_str \<subseteq> HEX_DIGITS then None
      else if length hextet_str > 4 then None
      else if hextet_str = [] then None
      else Some (int_of_str hextet_str 16))"

text \<open>
  The loop that looks for the one empty piece a \<open>::\<close> leaves between the end pieces;
  a second one is an error (the outer \<open>None\<close>).
\<close>

fun find_skip_index :: "string list \<Rightarrow> nat list \<Rightarrow> nat option \<Rightarrow> nat option option" where
  "find_skip_index parts [] skip_index = Some skip_index"
| "find_skip_index parts (i # rest) skip_index =
     (if parts ! i = []
      then (if skip_index \<noteq> None then None else find_skip_index parts rest (Some i))
      else find_skip_index parts rest skip_index)"

text \<open>The two loops \<open>ip_int <<= 16; ip_int |= _parse_hextet(part)\<close>.\<close>

definition parse_hextets :: "string list \<Rightarrow> int \<Rightarrow> int option" where
  "parse_hextets hextet_strs ip_int =
     map_option (foldl (\<lambda>n h. push_bit 16 n OR h) ip_int) (those (map parse_hextet hextet_strs))"

definition IPv6_ip_int_from_string :: "string \<Rightarrow> int option" where
  "IPv6_ip_int_from_string ip_str =
     (if ip_str = [] then None
      else (let parts = str_split ip_str (CHR '':'')
       in if length parts < 3 then None
       else (case (if CHR ''.'' \<in> set (last parts)
                   then (case IPv4Address (last parts) of
                           None \<Rightarrow> None
                         | Some ipv4_int \<Rightarrow>
                             Some (butlast parts @
                                   [format_x (drop_bit 16 ipv4_int AND 0xFFFF),
                                    format_x (ipv4_int AND 0xFFFF)]))
                   else Some parts) of
          None \<Rightarrow> None
        | Some parts \<Rightarrow>
           if length parts > 8 + 1 then None
           else (case find_skip_index parts [1..<length parts - 1] None of
              None \<Rightarrow> None
            | Some (Some skip_index) \<Rightarrow>
                (let parts_hi = (if parts ! 0 = [] then skip_index - 1 else skip_index);
                     parts_lo = (if last parts = [] then length parts - skip_index - 1 - 1
                                 else length parts - skip_index - 1);
                     parts_skipped = 8 - int (parts_hi + parts_lo)
                 in if parts ! 0 = [] \<and> parts_hi \<noteq> 0 then None
                    else if last parts = [] \<and> parts_lo \<noteq> 0 then None
                    else if parts_skipped < 1 then None
                    else (case parse_hextets (take parts_hi parts) 0 of
                            None \<Rightarrow> None
                          | Some ip_int \<Rightarrow>
                              parse_hextets (drop (length parts - parts_lo) parts)
                                (push_bit (16 * nat parts_skipped) ip_int)))
            | Some None \<Rightarrow>
                if length parts \<noteq> 8 then None
                else if parts ! 0 = [] then None
                else if last parts = [] then None
                else parse_hextets parts 0))))"

text \<open>\<open>_split_scope_id\<close>: \<open>ip_str.partition('%')\<close> and its two checks.\<close>

definition split_scope_id :: "string \<Rightarrow> (string \<times> string option) option" where
  "split_scope_id ip_str =
     (let addr = takeWhile (\<lambda>c. c \<noteq> CHR ''%'') ip_str;
          rest = dropWhile (\<lambda>c. c \<noteq> CHR ''%'') ip_str
      in if rest = [] then Some (addr, None)
         else if tl rest = [] \<or> CHR ''%'' \<in> set (tl rest) then None
         else Some (addr, Some (tl rest)))"

text \<open>The constructor on a string; the result is the address as an integer.\<close>

definition IPv6Address :: "string \<Rightarrow> int option" where
  "IPv6Address addr_str =
     (if CHR ''/'' \<in> set addr_str then None
      else (case split_scope_id addr_str of
              None \<Rightarrow> None
            | Some (addr_str, scope_id) \<Rightarrow> IPv6_ip_int_from_string addr_str))"

text \<open>
  \<open>_compress_hextets\<close>: one step of its loop over \<open>enumerate(hextets)\<close>, on the four
  loop variables, and the slice assignment after the loop.
\<close>

definition compress_step :: "int \<times> int \<times> int \<times> int \<Rightarrow> nat \<times> string \<Rightarrow> int \<times> int \<times> int \<times> int" where
  "compress_step state item =
     (case state of (best_doublecolon_start, best_doublecolon_len, doublecolon_start, doublecolon_len) \<Rightarrow>
      case item of (index, hextet) \<Rightarrow>
        if hextet = ''0''
        then (let doublecolon_len = doublecolon_len + 1;
                  doublecolon_start = (if doublecolon_start = - 1 then int index else doublecolon_start)
              in if doublecolon_len > best_doublecolon_len
                 then (doublecolon_start, doublecolon_len, doublecolon_start, doublecolon_len)
                 else (best_doublecolon_start, best_doublecolon_len, doublecolon_start, doublecolon_len))
        else (best_doublecolon_start, best_doublecolon_len, - 1, 0))"

definition compress_hextets :: "string list \<Rightarrow> string list" where
  "compress_hextets hextets =
     (case foldl compress_step (- 1, 0, - 1, 0) (enumerate 0 hextets) of
        (best_doublecolon_start, best_doublecolon_len, doublecolon_start, doublecolon_len) \<Rightarrow>
          if best_doublecolon_len > 1
          then (let best_doublecolon_end = best_doublecolon_start + best_doublecolon_len;
                    hextets1 = (if best_doublecolon_end = int (length hextets)
                                then hextets @ [[]] else hextets);
                    hextets2 = take (nat best_doublecolon_start) hextets1 @ [[]] @
                               drop (nat best_doublecolon_end) hextets1
                in if best_doublecolon_start = 0 then [[]] @ hextets2 else hextets2)
          else hextets)"

text \<open>
  The constructor on an integer only checks the range (\<open>_check_int_address\<close>).
\<close>

definition IPv6_ALL_ONES :: int where
  "IPv6_ALL_ONES = 2 ^ 128 - 1"

definition IPv6Address_of_int :: "int \<Rightarrow> int option" where
  "IPv6Address_of_int address =
     (if address < 0 then None
      else if address > IPv6_ALL_ONES then None
      else Some address)"

text \<open>
  \<open>_string_from_ip_int\<close>, the text of \<open>str(addr)\<close>, for an address that passed
  the range check of the constructor.
\<close>

definition IPv6_string_from_ip_int :: "int \<Rightarrow> string" where
  "IPv6_string_from_ip_int ip_int =
     (let hex_str = replicate (32 - length (format_x ip_int)) (CHR ''0'') @ format_x ip_int;
          hextets = map (\<lambda>x. format_x (int_of_str (take 4 (drop x hex_str)) 16))
                        [0, 4, 8, 12, 16, 20, 24, 28]
      in str_join '':'' (compress_hextets hextets))"

definition ipv4_mapped :: "int \<Rightarrow> int option" where
  "ipv4_mapped ip = (if drop_bit 32 ip \<noteq> 0xFFFF then None else Some (ip AND 0xFFFFFFFF))"

subsection \<open>\<open>django.utils.ipv6\<close>\<close>

definition MAX_IPV6_ADDRESS_LENGTH :: nat where
  "MAX_IPV6_ADDRESS_LENGTH = 39"

text \<open>
  \<open>_ipv6_address_from_str\<close> is \<open>IPv6Address(int(IPv6Address(ip_str)))\<close> behind the
  length check of current Django releases: the trip through \<open>int\<close> drops the scope id.
\<close>

definition ipv6_address_from_str :: "string \<Rightarrow> int option" where
  "ipv6_address_from_str ip_str =
     (if length ip_str > MAX_IPV6_ADDRESS_LENGTH then None
      else (case IPv6Address ip_str of
              None \<Rightarrow> None
            | Some ip \<Rightarrow> IPv6Address_of_int ip))"

definition clean_ipv6_address :: "string \<Rightarrow> bool \<Rightarrow> string option" where
  "clean_ipv6_address ip_str unpack_ipv4 =
     (case ipv6_address_from_str ip_str of
        None \<Rightarrow> None
      | Some addr \<Rightarrow>
          (case ipv4_mapped addr of
             Some v4 \<Rightarrow> if unpack_ipv4 then Some (IPv4_string_from_ip_int v4)
                        else Some (''::ffff:'' @ IPv4_string_from_ip_int v4)
           | None \<Rightarrow> Some (IPv6_string_from_ip_int addr)))"

subsection \<open>The field's way to the column\<close>

text \<open>
  \<open>get_prep_value\<close> (the field is declared without \<open>unpack_ipv4\<close>, which is then
  \<open>False\<close>): a \<open>ValidationError\<close> of the cleaner is swallowed and the value kept as it
  is. \<open>adapt_ipaddressfield_value\<close> is \<open>value or None\<close>. \<open>get_db_prep_value\<close> chains
  the two; its result \<open>None\<close> is SQL \<open>NULL\<close>.
\<close>

definition get_prep_value :: "pyval \<Rightarrow> pyval" where
  "get_prep_value v =
     (case v of
        None \<Rightarrow> None
      | Some s \<Rightarrow>
          if truthy (Some s) \<and> CHR '':'' \<in> set s
          then (case clean_ipv6_address s False of
                  Some cleaned \<Rightarrow> Some cleaned
                | None \<Rightarrow> Some s)
          else Some s)"

definition adapt_ipaddressfield_value :: "pyval \<Rightarrow> pyval" where
  "adapt_ipaddressfield_value v = (if truthy v then v else None)"

definition get_db_prep_value :: "pyval \<Rightarrow> pyval" where
  "get_db_prep_value v = adapt_ipaddressfield_value (get_prep_value v)"

section \<open>Data model (models.py)\<close>

record AllowedIP =
  ip_address :: string
  description :: string

record BlockedIPLog =
  ip_address :: string
  accessed_path :: string
  timestamp :: nat

text \<open>
  A row holds the text that reached its \<open>ip_address\<close> column, and the column is
  \<open>NOT NULL\<close>, hence \<open>string\<close>. The tables are lists in insertion order, so that
  equal rows stay apart. Stdout receives the two diagnostic \<open>print\<close> lines of every
  request; their fixed labels are left out and the printed value is kept.
\<close>

datatype diag = Print_client_ip pyval | Print_allowed_ips "string list"

record world =
  AllowedIP_objects :: "AllowedIP list"
  BlockedIPLog_objects :: "BlockedIPLog list"
  clock :: nat
  stdout :: "diag list"

text \<open>
  \<open>IntegrityError\<close> is what the store raises when a constraint of a table refuses a
  row; \<open>Exception\<close> stands for anything else a downstream view may raise.
\<close>

datatype error = IntegrityError | Exception string

text \<open>
  \<open>AllowedIP.objects.create\<close>. The address goes through the field; \<open>NULL\<close> is refused
  by the column, and \<open>unique=True\<close> refuses a second row with the same stored address.
  A refused insert leaves the table as it was.
\<close>

definition AllowedIP_create :: "string \<Rightarrow> string \<Rightarrow> world \<Rightarrow> error + world" where
  "AllowedIP_create ip desc w =
     (case get_db_prep_value (Some ip) of
        None \<Rightarrow> Inl IntegrityError
      | Some stored \<Rightarrow>
          if stored \<in> set (map AllowedIP.ip_address (AllowedIP_objects w)) then Inl IntegrityError
          else Inr (w\<lparr>AllowedIP_objects := AllowedIP_objects w @
                        [\<lparr>AllowedIP.ip_address = stored, description = desc\<rparr>]\<rparr>))"

text \<open>
  \<open>BlockedIPLog.objects.create\<close>: the address goes through the field and \<open>NULL\<close> is
  refused by the column; no uniqueness is declared; the row is appended with
  \<open>timestamp\<close> set to the time of creation (\<open>auto_now_add\<close>).
\<close>

definition BlockedIPLog_create :: "pyval \<Rightarrow> string \<Rightarrow> world \<Rightarrow> error + world" where
  "BlockedIPLog_create ip p w =
     (case get_db_prep_value ip of
        None \<Rightarrow> Inl IntegrityError
      | Some stored \<Rightarrow>
          Inr (w\<lparr>BlockedIPLog_objects := BlockedIPLog_objects w @
                 [\<lparr>BlockedIPLog.ip_address = stored, accessed_path = p, timestamp = clock w\<rparr>]\<rparr>))"

definition print :: "diag \<Rightarrow> world \<Rightarrow> world" where
  "print d w = w\<lparr>stdout := stdout w @ [d]\<rparr>"

section \<open>Requests and responses\<close>

record request =
  META :: "string \<rightharpoonup> string"
  path :: string

record HttpResponse =
  status_code :: nat
  content :: string

definition HttpResponseForbidden :: "string \<Rightarrow> HttpResponse" where
  "HttpResponseForbidden body = \<lparr>status_code = 403, content = body\<rparr>"

section \<open>The middleware (middlewate.py)\<close>

text \<open>
  \<open>get_client_ip\<close>: the first piece of a truthy \<open>X-Forwarded-For\<close> header, else
  \<open>REMOTE_ADDR\<close> (\<open>None\<close> when the key is missing). Index 0 of \<open>str_split\<close> is
  always in range (lemma \<open>str_split_not_Nil\<close>).
\<close>

definition get_client_ip :: "request \<Rightarrow> pyval" where
  "get_client_ip req =
     (let x_forwarded_for = META req ''HTTP_X_FORWARDED_FOR'' in
      if truthy x_forwarded_for
      then Some (str_split (the x_forwarded_for) (CHR '','') ! 0)
      else META req ''REMOTE_ADDR'')"

text \<open>
  \<open>__call__\<close>. A call ends in a response or in a raised error, and leaves a world
  behind either way. The downstream handler \<open>get_response\<close> may read and change the
  world; the middleware hands it the request and returns what it returns. An error of
  \<open>BlockedIPLog.objects.create\<close> is not caught: it leaves \<open>__call__\<close> before the
  \<open>return\<close> of the 403 response is reached.
\<close>

type_synonym outcome = "error + HttpResponse"

type_synonym handler = "request \<Rightarrow> world \<Rightarrow> outcome \<times> world"

definition call :: "handler \<Rightarrow> request \<Rightarrow> world \<Rightarrow> outcome \<times> world" where
  "call get_response req w =
     (let allowed_ips = map AllowedIP.ip_address (AllowedIP_objects w);
          remote_ip = get_client_ip req;
          w1 = print (Print_client_ip remote_ip) w;
          w2 = print (Print_allowed_ips allowed_ips) w1
      in if remote_ip \<notin> set (map Some allowed_ips)
         then (case BlockedIPLog_create remote_ip (path req) w2 of
                 Inl e \<Rightarrow> (Inl e, w2)
               | Inr w3 \<Rightarrow>
                   (Inr (HttpResponseForbidden (''Access denied for IP: '' @ py_str remote_ip)), w3))
         else get_response req w2)"

text \<open>
  Shorthands for the statements below: the addresses \<open>__call__\<close> reads from the
  allowlist table, and the two lines it prints for a request.
\<close>

abbreviation allowed_ips :: "world \<Rightarrow> string list" where
  "allowed_ips w \<equiv> map AllowedIP.ip_address (AllowedIP_objects w)"

abbreviation printed :: "request \<Rightarrow> world \<Rightarrow> diag list" where
  "printed req w \<equiv> [Print_client_ip (get_client_ip req), Print_allowed_ips (allowed_ips w)]"

section \<open>The data migration (0002_auto_add_localhost.py)\<close>

definition add_default_ip :: "world \<Rightarrow> error + world" where
  "add_default_ip w =
     (case AllowedIP_create ''127.0.0.1'' ''localhost default access'' w of
        Inl e \<Rightarrow> Inl e
      | Inr w1 \<Rightarrow> AllowedIP_create ''10.223.112.35'' ''Postman test'' w1)"

section \<open>The resolver as the specification words it\<close>

text \<open>
  This definition follows the specification, not the source: "split it on
  comma, trim whitespace, and take the first entry". Whitespace is what Python's
  \<open>str.strip\<close> removes among the ASCII characters: space, tab, line feed, vertical
  tab, form feed and carriage return.
\<close>

definition is_space :: "char \<Rightarrow> bool" where
  "is_space c = (c \<in> set [CHR '' '', CHR 0x09, CHR 0x0A, CHR 0x0B, CHR 0x0C, CHR 0x0D])"

definition strip :: "string \<Rightarrow> string" where
  "strip s = rev (dropWhile is_space (rev (dropWhile is_space s)))"

definition spec_first_forwarded :: "string \<Rightarrow> string" where
  "spec_first_forwarded header = strip (takeWhile (\<lambda>c. c \<noteq> CHR '','') header)"

section \<open>Scenarios\<close>

text \<open>
  Concrete worlds, requests and a downstream view on which the theorems below are
  instantiated: the state right after the schema migration, an allowlist holding only
  the loopback address, a request that carries only a peer address, one that carries a
  forwarding header as well, and a view that answers 200 without touching the world.
\<close>

definition initial_world :: world where
  "initial_world = \<lparr>AllowedIP_objects = [], BlockedIPLog_objects = [], clock = 0, stdout = []\<rparr>"

definition loopback_world :: world where
  "loopback_world =
     \<lparr>AllowedIP_objects = [\<lparr>AllowedIP.ip_address = ''127.0.0.1'', description = ''localhost default access''\<rparr>],
      BlockedIPLog_objects = [], clock = 7, stdout = []\<rparr>"

definition peer_request :: "string \<Rightarrow> string \<Rightarrow> request" where
  "peer_request peer p = \<lparr>META = [''REMOTE_ADDR'' \<mapsto> peer], path = p\<rparr>"

definition forwarded_request :: "string \<Rightarrow> string \<Rightarrow> string \<Rightarrow> request" where
  "forwarded_request header peer p =
     \<lparr>META = [''REMOTE_ADDR'' \<mapsto> peer, ''HTTP_X_FORWARDED_FOR'' \<mapsto> header], path = p\<rparr>"

definition ok_view :: handler where
  "ok_view req w = (Inr \<lparr>status_code = 200, content = ''ok''\<rparr>, w)"

section \<open>Basic facts\<close>

lemma str_split_not_Nil: "str_split s sep \<noteq> []"
  by (induction s) (auto split: list.splits)

lemma str_split_first: "str_split s sep ! 0 = takeWhile (\<lambda>c. c \<noteq> sep) s"
  by (induction s) (auto split: list.splits simp: str_split_not_Nil)

lemma get_client_ip_peer [simp]: "get_client_ip (peer_request peer p) = Some peer"
  by (simp add: get_client_ip_def peer_request_def)

lemma path_peer_request [simp]: "path (peer_request peer p) = p"
  by (simp add: peer_request_def)

lemma Some_mem_map_Some: "Some a \<in> set (map Some xs) \<longleftrightarrow> a \<in> set xs"
  by auto

section \<open>What the address field stores\<close>

lemma str_join_not_Nil:
  assumes "2 \<le> length xs" and "sep \<noteq> []"
  shows "str_join sep xs \<noteq> []"
proof -
  from assms(1) obtain x y ys where "xs = x # y # ys"
    by (cases xs; cases "tl xs") auto
  with assms(2) show ?thesis by simp
qed

lemma compress_loop_start:
  assumes "foldl compress_step (bs0, bl0, ds0, dl0) (enumerate k hs) = (bs, bl, ds, dl)"
    and "0 < bl0 \<longrightarrow> 0 \<le> bs0" and "- 1 \<le> ds0"
  shows "0 < bl \<longrightarrow> 0 \<le> bs"
  using assms
proof (induction hs arbitrary: bs0 bl0 ds0 dl0 k)
  case Nil
  then show ?case by simp
next
  case (Cons h hs)
  obtain bs1 bl1 ds1 dl1 where s: "compress_step (bs0, bl0, ds0, dl0) (k, h) = (bs1, bl1, ds1, dl1)"
    by (cases "compress_step (bs0, bl0, ds0, dl0) (k, h)") auto
  from s Cons.prems(2,3) have i: "0 < bl1 \<longrightarrow> 0 \<le> bs1" "- 1 \<le> ds1"
    by (auto simp: compress_step_def Let_def split: if_splits)
  from Cons.prems(1) s
  have "foldl compress_step (bs1, bl1, ds1, dl1) (enumerate (Suc k) hs) = (bs, bl, ds, dl)"
    by simp
  from Cons.IH [OF this i] show ?case .
qed

lemma compress_hextets_length:
  assumes "2 \<le> length hs"
  shows "2 \<le> length (compress_hextets hs)"
proof -
  obtain bs bl ds dl where f: "foldl compress_step (- 1, 0, - 1, 0) (enumerate 0 hs) = (bs, bl, ds, dl)"
    by (cases "foldl compress_step (- 1, 0, - 1, 0) (enumerate 0 hs)") auto
  from compress_loop_start [OF f] have p: "0 < bl \<longrightarrow> 0 \<le> bs"
    by simp
  show ?thesis
  proof (cases "1 < bl")
    case False
    with f assms show ?thesis by (simp add: compress_hextets_def)
  next
    case True
    with p have "0 \<le> bs" by simp
    with True f assms show ?thesis
      by (auto simp: compress_hextets_def Let_def min_def)
  qed
qed

lemma IPv6_string_from_ip_int_not_Nil: "IPv6_string_from_ip_int ip \<noteq> []"
  unfolding IPv6_string_from_ip_int_def Let_def
  by (rule str_join_not_Nil [OF compress_hextets_length]) simp_all

lemma clean_ipv6_address_not_Nil:
  assumes "clean_ipv6_address s False = Some cleaned"
  shows "cleaned \<noteq> []"
  using assms IPv6_string_from_ip_int_not_Nil
  by (auto simp: clean_ipv6_address_def split: option.splits)

lemma get_db_prep_value_eq_None: "get_db_prep_value v = None \<longleftrightarrow> v = None \<or> v = Some []"
  using clean_ipv6_address_not_Nil
  by (auto simp: get_db_prep_value_def get_prep_value_def adapt_ipaddressfield_value_def
           split: option.splits if_splits)


lemma get_db_prep_value_no_colon:
  assumes "b \<noteq> []" and "CHR '':'' \<notin> set b"
  shows "get_db_prep_value (Some b) = Some b"
  using assms
  by (simp add: get_db_prep_value_def get_prep_value_def adapt_ipaddressfield_value_def)


section \<open>The two branches of \<open>__call__\<close>\<close>

lemma call_deny:
  assumes "get_client_ip req \<notin> set (map Some (allowed_ips w))"
  shows "call h req w =
    (case get_db_prep_value (get_client_ip req) of
       None \<Rightarrow> (Inl IntegrityError, w\<lparr>stdout := stdout w @ printed req w\<rparr>)
     | Some stored \<Rightarrow>
         (Inr (HttpResponseForbidden (''Access denied for IP: '' @ py_str (get_client_ip req))),
          w\<lparr>BlockedIPLog_objects := BlockedIPLog_objects w @
               [\<lparr>BlockedIPLog.ip_address = stored, accessed_path = path req,
                 timestamp = clock w\<rparr>],
            stdout := stdout w @ printed req w\<rparr>))"
  using assms
  by (simp add: call_def Let_def print_def BlockedIPLog_create_def image_image split: option.splits)

lemma call_allow:
  assumes "get_client_ip req \<in> set (map Some (allowed_ips w))"
  shows "call h req w = h req (w\<lparr>stdout := stdout w @ printed req w\<rparr>)"
  using assms by (simp add: call_def Let_def print_def image_image)




lemma get_client_ip_forwarded_one [simp]:
  "get_client_ip (forwarded_request ''2001:DB8::1'' peer p) = Some ''2001:DB8::1''"
  by (simp add: get_client_ip_def forwarded_request_def)

lemma get_client_ip_forwarded_comma [simp]:
  "get_client_ip (forwarded_request '','' peer p) = Some []"
  by (simp add: get_client_ip_def forwarded_request_def)

lemma path_forwarded_request [simp]: "path (forwarded_request header peer p) = p"
  by (simp add: forwarded_request_def)

section \<open>The client-address resolver\<close>

text \<open>
  C5. When the forwarding header is absent, or present with an empty value, the resolver
  returns the peer address \<open>REMOTE_ADDR\<close> of the connection.
\<close>

theorem resolver_fallback:
  assumes "META req ''HTTP_X_FORWARDED_FOR'' = None \<or> META req ''HTTP_X_FORWARDED_FOR'' = Some []"
  shows "get_client_ip req = META req ''REMOTE_ADDR''"
  using assms by (auto simp: get_client_ip_def)

theorem resolver_fallback_witness:
  "(META (peer_request ''5.5.5.5'' ''/'') ''HTTP_X_FORWARDED_FOR'' = None
      \<or> META (peer_request ''5.5.5.5'' ''/'') ''HTTP_X_FORWARDED_FOR'' = Some [])
   \<and> get_client_ip (peer_request ''5.5.5.5'' ''/'') = Some ''5.5.5.5''"
proof -
  have h: "META (peer_request ''5.5.5.5'' ''/'') ''HTTP_X_FORWARDED_FOR'' = None
      \<or> META (peer_request ''5.5.5.5'' ''/'') ''HTTP_X_FORWARDED_FOR'' = Some []"
    by (simp add: peer_request_def)
  from resolver_fallback [OF h] have "get_client_ip (peer_request ''5.5.5.5'' ''/'') = Some ''5.5.5.5''"
    by (simp add: peer_request_def)
  with h show ?thesis by blast
qed

text \<open>
  C3, as the specification states it, fails: a header whose first entry starts with a
  space resolves to that entry with the space kept, not to the trimmed entry.
\<close>

theorem resolver_trim_counterexample:
  "get_client_ip (forwarded_request '' 9.9.9.9, 1.2.3.4'' ''5.5.5.5'' ''/'') = Some '' 9.9.9.9''
   \<and> spec_first_forwarded '' 9.9.9.9, 1.2.3.4'' = ''9.9.9.9''
   \<and> get_client_ip (forwarded_request '' 9.9.9.9, 1.2.3.4'' ''5.5.5.5'' ''/'')
       \<noteq> Some (spec_first_forwarded '' 9.9.9.9, 1.2.3.4'')"
  by (simp add: get_client_ip_def forwarded_request_def spec_first_forwarded_def strip_def is_space_def)

text \<open>
  C3, amended. When the forwarding header is present and non-empty, the resolver returns
  the text of the header up to its first comma exactly as it stands there: the first
  comma-separated entry, with no whitespace removed.
\<close>

theorem resolver_first_entry:
  assumes "META req ''HTTP_X_FORWARDED_FOR'' = Some header" and "header \<noteq> []"
  shows "get_client_ip req = Some (takeWhile (\<lambda>c. c \<noteq> CHR '','') header)"
  using assms by (simp add: get_client_ip_def str_split_first)

theorem resolver_first_entry_witness:
  "META (forwarded_request ''9.9.9.9, 1.2.3.4'' ''5.5.5.5'' ''/'') ''HTTP_X_FORWARDED_FOR''
     = Some ''9.9.9.9, 1.2.3.4''
   \<and> ''9.9.9.9, 1.2.3.4'' \<noteq> []
   \<and> get_client_ip (forwarded_request ''9.9.9.9, 1.2.3.4'' ''5.5.5.5'' ''/'') = Some ''9.9.9.9''"
proof -
  have h: "META (forwarded_request ''9.9.9.9, 1.2.3.4'' ''5.5.5.5'' ''/'') ''HTTP_X_FORWARDED_FOR''
     = Some ''9.9.9.9, 1.2.3.4''"
    by (simp add: forwarded_request_def)
  have n: "''9.9.9.9, 1.2.3.4'' \<noteq> []" by simp
  from resolver_first_entry [OF h n]
  have "get_client_ip (forwarded_request ''9.9.9.9, 1.2.3.4'' ''5.5.5.5'' ''/'') = Some ''9.9.9.9''"
    by simp
  with h n show ?thesis by blast
qed

section \<open>The request path (\<open>__call__\<close>)\<close>




text \<open>
  C2. A request whose resolved address equals an allowlist entry is handed to the
  downstream handler and the handler's result is returned as it is. The handler receives
  the world with only the two printed lines added, so the middleware has written no log row; with
  a handler that leaves the log table alone, the table is the same after the request.
\<close>

theorem allow_forwards_unchanged:
  assumes "get_client_ip req = Some a" and "a \<in> set (allowed_ips w)"
  shows "call h req w = h req (w\<lparr>stdout := stdout w @ printed req w\<rparr>)
    \<and> BlockedIPLog_objects (w\<lparr>stdout := stdout w @ printed req w\<rparr>) = BlockedIPLog_objects w
    \<and> ((\<forall>r v. BlockedIPLog_objects (snd (h r v)) = BlockedIPLog_objects v)
        \<longrightarrow> BlockedIPLog_objects (snd (call h req w)) = BlockedIPLog_objects w)"
proof -
  from assms have m: "get_client_ip req \<in> set (map Some (allowed_ips w))"
    by (simp only: Some_mem_map_Some)
  show ?thesis
    by (simp add: call_allow [OF m])
qed

theorem allow_forwards_unchanged_witness:
  "get_client_ip (peer_request ''127.0.0.1'' ''/'') = Some ''127.0.0.1''
   \<and> ''127.0.0.1'' \<in> set (allowed_ips loopback_world)
   \<and> (\<forall>r v. BlockedIPLog_objects (snd (ok_view r v)) = BlockedIPLog_objects v)
   \<and> fst (call ok_view (peer_request ''127.0.0.1'' ''/'') loopback_world)
       = Inr \<lparr>status_code = 200, content = ''ok''\<rparr>
   \<and> BlockedIPLog_objects (snd (call ok_view (peer_request ''127.0.0.1'' ''/'') loopback_world)) = []"
proof -
  have a: "get_client_ip (peer_request ''127.0.0.1'' ''/'') = Some ''127.0.0.1''"
    by simp
  have m: "''127.0.0.1'' \<in> set (allowed_ips loopback_world)"
    by (simp add: loopback_world_def)
  have f: "\<forall>r v. BlockedIPLog_objects (snd (ok_view r v)) = BlockedIPLog_objects v"
    by (simp add: ok_view_def)
  from allow_forwards_unchanged [OF a m, of ok_view] a m f show ?thesis
    by (simp add: loopback_world_def ok_view_def)
qed







section \<open>Edits of the allowlist\<close>






section \<open>The data migration\<close>

lemma add_default_ip_on_empty:
  assumes "AllowedIP_objects w = []"
  shows "add_default_ip w =
     Inr (w\<lparr>AllowedIP_objects :=
            [\<lparr>AllowedIP.ip_address = ''127.0.0.1'', description = ''localhost default access''\<rparr>,
             \<lparr>AllowedIP.ip_address = ''10.223.112.35'', description = ''Postman test''\<rparr>]\<rparr>)"
proof -
  have "get_db_prep_value (Some ''127.0.0.1'') = Some ''127.0.0.1''"
    and "get_db_prep_value (Some ''10.223.112.35'') = Some ''10.223.112.35''"
    by (rule get_db_prep_value_no_colon; simp)+
  with assms show ?thesis
    by (simp add: add_default_ip_def AllowedIP_create_def)
qed

text \<open>
  C8. Run on an empty allowlist table (the state the schema migration leaves), the
  seeding step succeeds and the loopback address \<open>127.0.0.1\<close> is in the allowlist
  afterwards.
\<close>

theorem seeding_adds_loopback:
  assumes "AllowedIP_objects w = []"
  shows "\<exists>w'. add_default_ip w = Inr w' \<and> ''127.0.0.1'' \<in> set (allowed_ips w')"
  by (simp add: add_default_ip_on_empty [OF assms])

theorem seeding_adds_loopback_witness:
  "AllowedIP_objects initial_world = []
   \<and> (\<exists>w'. add_default_ip initial_world = Inr w' \<and> ''127.0.0.1'' \<in> set (allowed_ips w'))"
proof -
  have e: "AllowedIP_objects initial_world = []"
    by (simp add: initial_world_def)
  from seeding_adds_loopback [OF e] e show ?thesis by blast
qed

text \<open>
  C9. Run on an empty allowlist table, the seeding step leaves exactly two rows: the
  loopback address, and \<open>10.223.112.35\<close> with description \<open>Postman test\<close>. A request
  resolving to \<open>10.223.112.35\<close> is therefore forwarded in the seeded world.
\<close>

theorem seeding_adds_two_entries:
  assumes "AllowedIP_objects w = []"
  shows "add_default_ip w =
     Inr (w\<lparr>AllowedIP_objects :=
            [\<lparr>AllowedIP.ip_address = ''127.0.0.1'', description = ''localhost default access''\<rparr>,
             \<lparr>AllowedIP.ip_address = ''10.223.112.35'', description = ''Postman test''\<rparr>]\<rparr>)
   \<and> (\<forall>w' req. add_default_ip w = Inr w' \<longrightarrow> get_client_ip req = Some ''10.223.112.35'' \<longrightarrow>
        call h req w' = h req (w'\<lparr>stdout := stdout w' @ printed req w'\<rparr>))"
proof (intro conjI allI impI)
  show "add_default_ip w =
     Inr (w\<lparr>AllowedIP_objects :=
            [\<lparr>AllowedIP.ip_address = ''127.0.0.1'', description = ''localhost default access''\<rparr>,
             \<lparr>AllowedIP.ip_address = ''10.223.112.35'', description = ''Postman test''\<rparr>]\<rparr>)"
    by (rule add_default_ip_on_empty [OF assms])
next
  fix w' req
  assume s: "add_default_ip w = Inr w'" and r: "get_client_ip req = Some ''10.223.112.35''"
  from s have "''10.223.112.35'' \<in> set (allowed_ips w')"
    by (auto simp: add_default_ip_on_empty [OF assms])
  with r have "get_client_ip req \<in> set (map Some (allowed_ips w'))"
    by (simp only: Some_mem_map_Some)
  from call_allow [OF this]
  show "call h req w' = h req (w'\<lparr>stdout := stdout w' @ printed req w'\<rparr>)" .
qed

theorem seeding_adds_two_entries_witness:
  "AllowedIP_objects initial_world = []
   \<and> add_default_ip initial_world =
       Inr (initial_world\<lparr>AllowedIP_objects :=
            [\<lparr>AllowedIP.ip_address = ''127.0.0.1'', description = ''localhost default access''\<rparr>,
             \<lparr>AllowedIP.ip_address = ''10.223.112.35'', description = ''Postman test''\<rparr>]\<rparr>)
   \<and> get_client_ip (peer_request ''10.223.112.35'' ''/'') = Some ''10.223.112.35''
   \<and> fst (call ok_view (peer_request ''10.223.112.35'' ''/'')
        (initial_world\<lparr>AllowedIP_objects :=
            [\<lparr>AllowedIP.ip_address = ''127.0.0.1'', description = ''localhost default access''\<rparr>,
             \<lparr>AllowedIP.ip_address = ''10.223.112.35'', description = ''Postman test''\<rparr>]\<rparr>))
       = Inr \<lparr>status_code = 200, content = ''ok''\<rparr>"
proof -
  let ?req = "peer_request ''10.223.112.35'' ''/''"
  let ?w' = "initial_world\<lparr>AllowedIP_objects :=
            [\<lparr>AllowedIP.ip_address = ''127.0.0.1'', description = ''localhost default access''\<rparr>,
             \<lparr>AllowedIP.ip_address = ''10.223.112.35'', description = ''Postman test''\<rparr>]\<rparr>"
  have e: "AllowedIP_objects initial_world = []"
    by (simp add: initial_world_def)
  have a: "get_client_ip ?req = Some ''10.223.112.35''"
    by simp
  note t = seeding_adds_two_entries [OF e, of ok_view]
  from t have s: "add_default_ip initial_world = Inr ?w'"
    by blast
  with t a have "call ok_view ?req ?w' = ok_view ?req (?w'\<lparr>stdout := stdout ?w' @ printed ?req ?w'\<rparr>)"
    by blast
  then have "fst (call ok_view ?req ?w') = Inr \<lparr>status_code = 200, content = ''ok''\<rparr>"
    by (simp add: ok_view_def)
  with e s a show ?thesis by blast
qed

section \<open>What a request changes\<close>

text \<open>
  C10. Processing a request never changes the allowlist table, and the only change the
  middleware makes to the log table is one appended row on the deny path. On the deny
  path the world after the call is the world before with the two printed lines added and
  the row for this request appended to the log table, or, when the store refuses that
  row, with the printed lines alone. On the allow path the call is the handler's call on
  the world with only the printed lines added, so the middleware itself has written to
  neither table. With a handler that leaves both tables alone, the allowlist is the same
  after every request and the log table is the same after every allowed request.
\<close>

theorem gate_frame:
  "(get_client_ip req \<notin> set (map Some (allowed_ips w)) \<longrightarrow>
      snd (call h req w) =
        (case get_db_prep_value (get_client_ip req) of
           None \<Rightarrow> w\<lparr>stdout := stdout w @ printed req w\<rparr>
         | Some stored \<Rightarrow>
             w\<lparr>BlockedIPLog_objects := BlockedIPLog_objects w @
                  [\<lparr>BlockedIPLog.ip_address = stored, accessed_path = path req,
                    timestamp = clock w\<rparr>],
               stdout := stdout w @ printed req w\<rparr>)
      \<and> AllowedIP_objects (snd (call h req w)) = AllowedIP_objects w)
   \<and> (get_client_ip req \<in> set (map Some (allowed_ips w)) \<longrightarrow>
      call h req w = h req (w\<lparr>stdout := stdout w @ printed req w\<rparr>))
   \<and> ((\<forall>r v. AllowedIP_objects (snd (h r v)) = AllowedIP_objects v
             \<and> BlockedIPLog_objects (snd (h r v)) = BlockedIPLog_objects v) \<longrightarrow>
      AllowedIP_objects (snd (call h req w)) = AllowedIP_objects w
      \<and> (get_client_ip req \<in> set (map Some (allowed_ips w)) \<longrightarrow>
           BlockedIPLog_objects (snd (call h req w)) = BlockedIPLog_objects w))"
proof (intro conjI impI)
  assume d: "get_client_ip req \<notin> set (map Some (allowed_ips w))"
  show "snd (call h req w) =
        (case get_db_prep_value (get_client_ip req) of
           None \<Rightarrow> w\<lparr>stdout := stdout w @ printed req w\<rparr>
         | Some stored \<Rightarrow>
             w\<lparr>BlockedIPLog_objects := BlockedIPLog_objects w @
                  [\<lparr>BlockedIPLog.ip_address = stored, accessed_path = path req,
                    timestamp = clock w\<rparr>],
               stdout := stdout w @ printed req w\<rparr>)"
    by (simp add: call_deny [OF d] split: option.splits)
  show "AllowedIP_objects (snd (call h req w)) = AllowedIP_objects w"
    by (simp add: call_deny [OF d] split: option.splits)
next
  assume m: "get_client_ip req \<in> set (map Some (allowed_ips w))"
  show "call h req w = h req (w\<lparr>stdout := stdout w @ printed req w\<rparr>)"
    by (rule call_allow [OF m])
next
  assume f: "\<forall>r v. AllowedIP_objects (snd (h r v)) = AllowedIP_objects v
             \<and> BlockedIPLog_objects (snd (h r v)) = BlockedIPLog_objects v"
  show "AllowedIP_objects (snd (call h req w)) = AllowedIP_objects w"
  proof (cases "get_client_ip req \<in> set (map Some (allowed_ips w))")
    case True
    show ?thesis by (simp add: call_allow [OF True] f)
  next
    case False
    show ?thesis by (simp add: call_deny [OF False] split: option.splits)
  qed
next
  assume f: "\<forall>r v. AllowedIP_objects (snd (h r v)) = AllowedIP_objects v
             \<and> BlockedIPLog_objects (snd (h r v)) = BlockedIPLog_objects v"
    and m: "get_client_ip req \<in> set (map Some (allowed_ips w))"
  show "BlockedIPLog_objects (snd (call h req w)) = BlockedIPLog_objects w"
    by (simp add: call_allow [OF m] f)
qed

theorem gate_frame_witness:
  "get_client_ip (peer_request ''8.8.8.8'' ''/x'') \<notin> set (map Some (allowed_ips loopback_world))
   \<and> get_client_ip (forwarded_request '','' ''8.8.8.8'' ''/x'') \<notin> set (map Some (allowed_ips loopback_world))
   \<and> get_client_ip (peer_request ''127.0.0.1'' ''/x'') \<in> set (map Some (allowed_ips loopback_world))
   \<and> (\<forall>r v. AllowedIP_objects (snd (ok_view r v)) = AllowedIP_objects v
             \<and> BlockedIPLog_objects (snd (ok_view r v)) = BlockedIPLog_objects v)
   \<and> AllowedIP_objects (snd (call ok_view (peer_request ''8.8.8.8'' ''/x'') loopback_world))
       = AllowedIP_objects loopback_world
   \<and> BlockedIPLog_objects (snd (call ok_view (peer_request ''8.8.8.8'' ''/x'') loopback_world))
       = [\<lparr>BlockedIPLog.ip_address = ''8.8.8.8'', accessed_path = ''/x'', timestamp = 7\<rparr>]
   \<and> snd (call ok_view (forwarded_request '','' ''8.8.8.8'' ''/x'') loopback_world)
       = loopback_world\<lparr>stdout := [Print_client_ip (Some []), Print_allowed_ips [''127.0.0.1'']]\<rparr>
   \<and> AllowedIP_objects (snd (call ok_view (peer_request ''127.0.0.1'' ''/x'') loopback_world))
       = AllowedIP_objects loopback_world
   \<and> BlockedIPLog_objects (snd (call ok_view (peer_request ''127.0.0.1'' ''/x'') loopback_world))
       = []"
proof -
  let ?deny = "peer_request ''8.8.8.8'' ''/x''"
  let ?blank = "forwarded_request '','' ''8.8.8.8'' ''/x''"
  let ?allow = "peer_request ''127.0.0.1'' ''/x''"
  have d: "get_client_ip ?deny \<notin> set (map Some (allowed_ips loopback_world))"
    by (simp add: loopback_world_def)
  have b: "get_client_ip ?blank \<notin> set (map Some (allowed_ips loopback_world))"
    by (simp add: loopback_world_def)
  have m: "get_client_ip ?allow \<in> set (map Some (allowed_ips loopback_world))"
    by (simp add: loopback_world_def)
  have f: "\<forall>r v. AllowedIP_objects (snd (ok_view r v)) = AllowedIP_objects v
             \<and> BlockedIPLog_objects (snd (ok_view r v)) = BlockedIPLog_objects v"
    by (simp add: ok_view_def)
  have p: "get_db_prep_value (Some ''8.8.8.8'') = Some ''8.8.8.8''"
    by (rule get_db_prep_value_no_colon) simp_all
  have q: "get_db_prep_value (Some []) = None"
    by (simp add: get_db_prep_value_eq_None)
  from gate_frame [of ?deny loopback_world ok_view] d
  have 1: "snd (call ok_view ?deny loopback_world) =
        loopback_world\<lparr>BlockedIPLog_objects := BlockedIPLog_objects loopback_world @
             [\<lparr>BlockedIPLog.ip_address = ''8.8.8.8'', accessed_path = path ?deny,
               timestamp = clock loopback_world\<rparr>],
          stdout := stdout loopback_world @ printed ?deny loopback_world\<rparr>"
    by (simp add: p)
  from gate_frame [of ?blank loopback_world ok_view] b
  have 0: "snd (call ok_view ?blank loopback_world) =
        loopback_world\<lparr>stdout := stdout loopback_world @ printed ?blank loopback_world\<rparr>"
    by (simp add: q)
  from gate_frame [of ?allow loopback_world ok_view] m f
  have 2: "AllowedIP_objects (snd (call ok_view ?allow loopback_world)) = AllowedIP_objects loopback_world"
    and 3: "BlockedIPLog_objects (snd (call ok_view ?allow loopback_world)) = BlockedIPLog_objects loopback_world"
    by blast+
  have 4: "AllowedIP_objects (snd (call ok_view ?deny loopback_world)) = AllowedIP_objects loopback_world"
    by (simp add: 1)
  have 5: "BlockedIPLog_objects (snd (call ok_view ?deny loopback_world))
       = [\<lparr>BlockedIPLog.ip_address = ''8.8.8.8'', accessed_path = ''/x'', timestamp = 7\<rparr>]"
    by (simp add: 1) (simp add: loopback_world_def)
  have 6: "BlockedIPLog_objects loopback_world = []"
    by (simp add: loopback_world_def)
  have 7: "snd (call ok_view ?blank loopback_world)
       = loopback_world\<lparr>stdout := [Print_client_ip (Some []), Print_allowed_ips [''127.0.0.1'']]\<rparr>"
    by (simp add: 0) (simp add: loopback_world_def)
  from d b m f 2 3 4 5 6 7 show ?thesis by simp
qed

end
